theory Spec2Isabelle
  imports Main
begin

section \<open>Durable FIFO queue (the IndexedDB object store of the browser transport)\<close>

text \<open>
  An IndexedDB object store holds one value per key and enumerates its keys in ascending
  order; \<open>store.put(value, key)\<close> overwrites the value of a key that is present. The
  store is modelled as an association list kept in strictly ascending key order. Keys are
  JavaScript numbers that only ever hold integers here, so they are \<open>int\<close>.
\<close>

type_synonym 'v queue = "(int \<times> 'v) list"

text \<open>\<open>store.put(value, key)\<close>.\<close>

fun put :: "int \<Rightarrow> 'v \<Rightarrow> 'v queue \<Rightarrow> 'v queue" where
  "put k v [] = [(k, v)]"
| "put k v ((k', v') # q) =
     (if k < k' then (k, v) # (k', v') # q
      else if k = k' then (k, v) # q
      else (k', v') # put k v q)"

text \<open>\<open>store.getAllKeys()\<close>, \<open>store.get(key)\<close>, \<open>store.delete(key)\<close>.\<close>

definition keys :: "'v queue \<Rightarrow> int list" where
  "keys q = map fst q"

definition get :: "'v queue \<Rightarrow> int \<Rightarrow> 'v option" where
  "get q k = map_of q k"

definition delete :: "int \<Rightarrow> 'v queue \<Rightarrow> 'v queue" where
  "delete k q = filter (\<lambda>e. fst e \<noteq> k) q"

text \<open>\<open>Math.max(...keys, 0)\<close>.\<close>

definition max_key :: "int list \<Rightarrow> int" where
  "max_key ks = foldr max ks 0"

text \<open>
  \<open>insert(store, value, maxQueueSize, toStart)\<close>: a full queue is left as it is (the
  callback returns before \<open>put\<close>); otherwise the value is written at key \<open>0\<close> when
  \<open>toStart\<close>, and at \<open>Math.max(...keys, 0) + 1\<close> when not.
\<close>

definition insert_q :: "'v queue \<Rightarrow> 'v \<Rightarrow> nat \<Rightarrow> bool \<Rightarrow> 'v queue" where
  "insert_q q v maxQueueSize toStart =
     (if length (keys q) \<ge> maxQueueSize then q
      else put (if toStart then 0 else max_key (keys q) + 1) v q)"

text \<open>
  \<open>pop(store, offset)\<close>: with no key the value stays \<open>undefined\<close>. Otherwise the entry
  at \<open>keys[offset]\<close> is read and deleted. When \<open>offset\<close> is out of range
  \<open>keys[offset]\<close> is \<open>undefined\<close>, \<open>store.get(undefined)\<close> throws inside the
  request callback, the transaction aborts and nothing is deleted: the result is
  \<open>None\<close> with the queue unchanged.
\<close>

definition pop_q :: "'v queue \<Rightarrow> int \<Rightarrow> 'v option \<times> 'v queue" where
  "pop_q q offset =
     (if keys q \<noteq> [] then
        (if 0 \<le> offset \<and> offset < int (length (keys q)) then
           (get q (keys q ! nat offset), delete (keys q ! nat offset) q)
         else (None, q))
      else (None, q))"

definition size_q :: "'v queue \<Rightarrow> nat" where
  "size_q q = length (keys q)"

definition clear_q :: "'v queue \<Rightarrow> 'v queue" where
  "clear_q q = []"

text \<open>A sequence of inserts, each with its own value and \<open>toStart\<close> flag.\<close>

fun inserts :: "'v queue \<Rightarrow> nat \<Rightarrow> ('v \<times> bool) list \<Rightarrow> 'v queue" where
  "inserts q maxQueueSize [] = q"
| "inserts q maxQueueSize ((v, toStart) # vs) =
     inserts (insert_q q v maxQueueSize toStart) maxQueueSize vs"

text \<open>
  The store's own invariant: keys strictly ascending (hence unique), none negative. After
  the head has been popped the keys that remain are positive.
\<close>

definition wf_queue :: "'v queue \<Rightarrow> bool" where
  "wf_queue q \<longleftrightarrow> sorted_wrt (<) (keys q) \<and> list_all (\<lambda>k. 0 \<le> k) (keys q)"

definition pos_queue :: "'v queue \<Rightarrow> bool" where
  "pos_queue q \<longleftrightarrow> sorted_wrt (<) (keys q) \<and> list_all (\<lambda>k. 0 < k) (keys q)"

section \<open>Offline transport engine\<close>

definition MIN_DELAY :: int where "MIN_DELAY = 100"
definition START_DELAY :: int where "START_DELAY = 5000"
definition MAX_DELAY :: int where "MAX_DELAY = 3600000"

record envelope =
  item_types :: "string list"
  payload :: string

datatype error = Error string

text \<open>
  \<open>TransportMakeRequestResponse\<close>: both fields are optional; \<open>{}\<close> has neither.
\<close>

record response =
  statusCode :: "int option"
  headers :: "(string \<times> string) list option"

definition empty_response :: response where
  "empty_response = \<lparr>statusCode = None, headers = None\<rparr>"

text \<open>
  What one call of the inner \<open>transport.send\<close> does: it resolves, with a response or
  with nothing, or it rejects. What \<open>send\<close> of the engine does: it returns what the
  inner transport resolved (or \<open>{}\<close>), or it throws.
\<close>

datatype outcome = Resolves "response option" | Throws error

datatype send_result = Returned "response option" | Raised error

record options =
  createStore :: bool
  flushAtStartup :: bool
  fullOffline :: bool
  shouldStore :: "(envelope \<Rightarrow> error \<Rightarrow> int \<Rightarrow> bool) option"
  maxQueueSize :: "nat option"

text \<open>
  A pending timeout of the JavaScript runtime: its handle, its delay and the
  \<open>isFlushingHead\<close> its callback closes over.
\<close>

record timer =
  tid :: nat
  tdelay :: int
  thead :: bool

text \<open>
  The closure state of \<open>makeOfflineTransport\<close> (\<open>store\<close>, \<open>retryDelay\<close>,
  \<open>flushTimer\<close>, \<open>sizeToFlush\<close>, \<open>flushedCnt\<close>) together with the runtime's table
  of pending timeouts and the next fresh handle. \<open>store\<close> is \<open>None\<close> when
  \<open>options.createStore\<close> is absent. The codec is outside the engine; serialising and
  parsing are taken to round-trip, so the queue holds the envelopes themselves.
\<close>

record engine =
  store :: "envelope queue option"
  retryDelay :: int
  flushTimer :: "nat option"
  sizeToFlush :: int
  flushedCnt :: int
  timers :: "timer list"
  nextTimer :: nat

text \<open>
  Modelled from the spec: \<open>envelopeContainsItemType\<close> of \<open>@sentry/utils\<close> is not
  among the sources; the spec has it hold when the envelope's item-type set intersects
  the given kinds.
\<close>

definition envelopeContainsItemType :: "envelope \<Rightarrow> string list \<Rightarrow> bool" where
  "envelopeContainsItemType env types = list_ex (\<lambda>t. t \<in> set types) (item_types env)"

definition shouldQueue :: "options \<Rightarrow> envelope \<Rightarrow> error \<Rightarrow> int \<Rightarrow> bool" where
  "shouldQueue opts env err delay =
     (if envelopeContainsItemType env [''replay_event'', ''replay_recording'', ''client_report'']
      then False
      else case shouldStore opts of
             Some f \<Rightarrow> f env err delay
           | None \<Rightarrow> True)"

text \<open>
  The queue adapter of \<open>createIndexedDbStore\<close>: \<open>options.maxQueueSize || 30\<close>, and
  the four operations on the engine's store. Each is only ever called where the store
  exists; on an absent store the model leaves the state as it is.
\<close>

definition queue_cap :: "options \<Rightarrow> nat" where
  "queue_cap opts = (case maxQueueSize opts of None \<Rightarrow> 30 | Some n \<Rightarrow> if n = 0 then 30 else n)"

definition store_insert :: "options \<Rightarrow> engine \<Rightarrow> envelope \<Rightarrow> bool \<Rightarrow> engine" where
  "store_insert opts st env toStart =
     (case store st of
        None \<Rightarrow> st
      | Some q \<Rightarrow> st\<lparr>store := Some (insert_q q env (queue_cap opts) toStart)\<rparr>)"

definition store_pop :: "engine \<Rightarrow> int \<Rightarrow> envelope option \<times> engine" where
  "store_pop st offset =
     (case store st of
        None \<Rightarrow> (None, st)
      | Some q \<Rightarrow> (fst (pop_q q offset), st\<lparr>store := Some (snd (pop_q q offset))\<rparr>))"

definition store_size :: "engine \<Rightarrow> int" where
  "store_size st = (case store st of None \<Rightarrow> 0 | Some q \<Rightarrow> int (size_q q))"

definition store_clear :: "engine \<Rightarrow> engine" where
  "store_clear st = (case store st of None \<Rightarrow> st | Some q \<Rightarrow> st\<lparr>store := Some (clear_q q)\<rparr>)"

text \<open>
  \<open>flushIn(delay, isFlushingHead)\<close> up to the point where it has installed its timer:
  nothing without a store; otherwise \<open>clearTimeout(flushTimer)\<close> when the handle is set,
  then \<open>flushTimer = setTimeout(callback, delay)\<close>. Handles are fresh and positive, so
  a set handle is truthy.
\<close>

definition clearTimeout :: "nat \<Rightarrow> timer list \<Rightarrow> timer list" where
  "clearTimeout h ts = filter (\<lambda>t. tid t \<noteq> h) ts"

definition flushIn :: "engine \<Rightarrow> int \<Rightarrow> bool \<Rightarrow> engine" where
  "flushIn st delay isFlushingHead =
     (case store st of
        None \<Rightarrow> st
      | Some q \<Rightarrow>
          st\<lparr>timers := (case flushTimer st of
                           None \<Rightarrow> timers st
                         | Some h \<Rightarrow> clearTimeout h (timers st))
                        @ [\<lparr>tid = nextTimer st, tdelay = delay, thead = isFlushingHead\<rparr>],
             flushTimer := Some (nextTimer st),
             nextTimer := Suc (nextTimer st)\<rparr>)"

definition flushWithBackOff :: "engine \<Rightarrow> bool \<Rightarrow> engine" where
  "flushWithBackOff st isFlushingHead =
     (if flushTimer st \<noteq> None then st
      else flushIn st (retryDelay st) isFlushingHead)"

text \<open>
  The timer callback of \<open>flushIn\<close>, in the two pieces that the awaited
  \<open>send(found, isFlushingHead)\<close> separates: \<open>timer_fire\<close> runs from the firing of the
  timer to the pop and hands the popped envelope on; \<open>timer_finish\<close> is the test after
  the send has returned.
\<close>

definition timer_fire :: "engine \<Rightarrow> timer \<Rightarrow> envelope option \<times> engine" where
  "timer_fire st t =
     (let st1 = st\<lparr>timers := clearTimeout (tid t) (timers st), flushTimer := None\<rparr>;
          offset = (if thead t then 0 else sizeToFlush st1 - flushedCnt st1);
          canPop = (if thead t then flushedCnt st1 < sizeToFlush st1 else True)
      in if canPop then
           (case store_pop st1 offset of
              (Some found, st2) \<Rightarrow>
                (Some found, if thead t then st2\<lparr>flushedCnt := flushedCnt st2 + 1\<rparr> else st2)
            | (None, st2) \<Rightarrow> (None, st2))
         else (None, st1))"

definition timer_finish :: "engine \<Rightarrow> bool \<Rightarrow> engine" where
  "timer_finish st isFlushingHead =
     (if isFlushingHead \<and> flushedCnt st = sizeToFlush st
      then st\<lparr>sizeToFlush := 0, flushedCnt := 0\<rparr>
      else st)"

text \<open>
  The value of \<open>result.headers && result.headers['retry-after']\<close> when it is truthy
  (an empty string is not), and \<open>result.statusCode || 0\<close>.
\<close>

definition retry_after :: "response \<Rightarrow> string option" where
  "retry_after r =
     (case headers r of
        None \<Rightarrow> None
      | Some hs \<Rightarrow>
          (case map_of hs ''retry-after'' of
             None \<Rightarrow> None
           | Some h \<Rightarrow> if h = [] then None else Some h))"

definition status :: "response \<Rightarrow> int" where
  "status r = (case statusCode r of None \<Rightarrow> 0 | Some c \<Rightarrow> c)"

text \<open>
  The end of the success path of \<open>send\<close>: \<open>retryDelay = 0\<close>, then
  \<open>await flushIn(delay, isFlushingHead)\<close> in a head drain and \<open>flushIn(delay)\<close>,
  not awaited and with \<open>isFlushingHead\<close> at its default \<open>false\<close>, otherwise.
  Awaiting changes what the caller waits for, not the state: the effect is the installed
  timer.
\<close>

definition send_success :: "engine \<Rightarrow> int \<Rightarrow> bool \<Rightarrow> engine" where
  "send_success st delay isFlushingHead =
     (if isFlushingHead then flushIn (st\<lparr>retryDelay := 0\<rparr>) delay isFlushingHead
      else flushIn (st\<lparr>retryDelay := 0\<rparr>) delay False)"

text \<open>
  \<open>send(envelope, isFlushingHead)\<close>. The state is the one at the moment the inner
  transport's call settles (before that, \<open>send\<close> reads only the store's presence and
  the options); \<open>transport_send\<close> is how that call settled, and is not looked at on the
  full-offline path, where the inner transport is not called. \<open>parseRetryAfterHeader\<close>
  of \<open>@sentry/utils\<close> is not among the sources and is a parameter.
\<close>

definition send ::
  "options \<Rightarrow> (string \<Rightarrow> int) \<Rightarrow> engine \<Rightarrow> envelope \<Rightarrow> bool \<Rightarrow> outcome \<Rightarrow> send_result \<times> engine"
where
  "send opts parseRetryAfterHeader st env isFlushingHead transport_send =
     (if store st \<noteq> None \<and> fullOffline opts \<and> \<not> isFlushingHead then
        (Returned (Some empty_response), store_insert opts st env False)
      else
        case transport_send of
          Resolves result \<Rightarrow>
            (case result of
               None \<Rightarrow>
                 (Returned result, send_success st MIN_DELAY isFlushingHead)
             | Some r \<Rightarrow>
                 (case retry_after r of
                    Some h \<Rightarrow>
                      (Returned result,
                       send_success st (parseRetryAfterHeader h) isFlushingHead)
                  | None \<Rightarrow>
                      if status r \<ge> 400 then (Returned result, st)
                      else (Returned result,
                            send_success st MIN_DELAY isFlushingHead)))
        | Throws e \<Rightarrow>
            (let st1 = st\<lparr>retryDelay := max (min (retryDelay st * 2) MAX_DELAY) START_DELAY\<rparr>
             in if store st1 \<noteq> None \<and> shouldQueue opts env e (retryDelay st1) then
                  (if isFlushingHead then
                     (Returned (Some empty_response),
                      flushWithBackOff
                        ((store_insert opts st1 env True)
                           \<lparr>flushedCnt := flushedCnt st1 - 1\<rparr>) True)
                   else
                     (Returned (Some empty_response),
                      flushWithBackOff (store_insert opts st1 env False) False))
                else (Raised e, st1)))"

text \<open>
  \<open>flush(t)\<close>. In \<open>t ?? 0 < 0\<close> the comparison binds tighter than \<open>??\<close>: the
  condition is \<open>t ?? (0 < 0)\<close>, which is \<open>false\<close> for an absent \<open>t\<close> and the
  truthiness of \<open>t\<close> (\<open>t \<noteq> 0\<close>) otherwise. \<open>inner_flush\<close> is what
  \<open>transport.flush(t)\<close> resolves when full-offline mode is off. \<open>flush_resume\<close> is
  the part of \<open>flush\<close> that runs once the awaited \<open>store.size()\<close> has resolved: the
  assignment to \<open>sizeToFlush\<close> and the arming of the head drain.
\<close>

definition flush_resume :: "engine \<Rightarrow> bool \<times> engine" where
  "flush_resume st =
     (let st1 = st\<lparr>sizeToFlush := store_size st\<rparr>
      in if sizeToFlush st1 > 0 then (True, flushWithBackOff st1 True)
         else (True, st1))"

definition flush :: "options \<Rightarrow> engine \<Rightarrow> int option \<Rightarrow> bool \<Rightarrow> bool \<times> engine" where
  "flush opts st t inner_flush =
     (if fullOffline opts then
        (if (case t of None \<Rightarrow> False | Some n \<Rightarrow> n \<noteq> 0) then (True, store_clear st)
         else if sizeToFlush st > 0 then (False, st)
         else flush_resume st)
      else (inner_flush, st))"

text \<open>
  Construction: the closure variables start at \<open>0\<close> and \<open>undefined\<close>; \<open>q0\<close> is what
  the persistent store holds from earlier sessions; \<open>flushAtStartup\<close> arms one
  non-head drain.
\<close>

definition init :: "options \<Rightarrow> envelope queue \<Rightarrow> engine" where
  "init opts q0 =
     (let st = \<lparr>store = (if createStore opts then Some q0 else None),
                retryDelay = 0, flushTimer = None, sizeToFlush = 0, flushedCnt = 0,
                timers = [], nextTimer = 1\<rparr>
      in if flushAtStartup opts then flushWithBackOff st False else st)"

text \<open>
  What can happen to an engine, one event at a time: a \<open>send\<close> whose transport call
  settles (from a caller, or from a timer callback with the envelope it popped), a
  \<open>flush\<close> that runs through, the second part of a \<open>flush\<close> whose test of
  \<open>sizeToFlush\<close> was made earlier (other events may run while it awaits
  \<open>store.size()\<close>), a direct call of either scheduler entry point, the firing of a pending
  timer and the closing test of a timer callback. Every execution of the engine is such a
  sequence, each continuation between two awaits being one event.
\<close>

datatype event =
    EvSend envelope bool outcome
  | EvFlush "int option" bool
  | EvFlushResume
  | EvFlushIn int bool
  | EvFlushWithBackOff bool
  | EvFire timer
  | EvFinish bool

fun step :: "options \<Rightarrow> (string \<Rightarrow> int) \<Rightarrow> engine \<Rightarrow> event \<Rightarrow> engine" where
  "step opts pra st (EvSend env isFlushingHead out) = snd (send opts pra st env isFlushingHead out)"
| "step opts pra st (EvFlush t inner_flush) = snd (flush opts st t inner_flush)"
| "step opts pra st EvFlushResume = snd (flush_resume st)"
| "step opts pra st (EvFlushIn delay isFlushingHead) = flushIn st delay isFlushingHead"
| "step opts pra st (EvFlushWithBackOff isFlushingHead) = flushWithBackOff st isFlushingHead"
| "step opts pra st (EvFire t) = (if t \<in> set (timers st) then snd (timer_fire st t) else st)"
| "step opts pra st (EvFinish isFlushingHead) = timer_finish st isFlushingHead"

fun run :: "options \<Rightarrow> (string \<Rightarrow> int) \<Rightarrow> engine \<Rightarrow> event list \<Rightarrow> engine" where
  "run opts pra st [] = st"
| "run opts pra st (ev # evs) = run opts pra (step opts pra st ev) evs"

section \<open>Properties stated over runs\<close>

text \<open>
  A send is live when it reaches the inner transport, that is, when it does not take the
  full-offline path.
\<close>

definition live :: "options \<Rightarrow> engine \<Rightarrow> bool \<Rightarrow> bool" where
  "live opts st isFlushingHead \<longleftrightarrow> \<not> (store st \<noteq> None \<and> fullOffline opts \<and> \<not> isFlushingHead)"

text \<open>
  The delay the claim gives after the \<open>n\<close>th consecutive failure:
  \<open>min(START_DELAY \<cdot> 2^(n-1), MAX_DELAY)\<close>, and \<open>0\<close> before the first.
\<close>

fun backoff :: "nat \<Rightarrow> int" where
  "backoff 0 = 0"
| "backoff (Suc n) = min (START_DELAY * 2 ^ n) MAX_DELAY"

text \<open>
  Live sends as events: one that throws, and one that resolves. \<open>hasStore\<close> says whether
  the engine has a store.
\<close>

fun is_live_failure :: "options \<Rightarrow> bool \<Rightarrow> event \<Rightarrow> bool" where
  "is_live_failure opts hasStore (EvSend env isFlushingHead (Throws e)) =
     (\<not> (hasStore \<and> fullOffline opts \<and> \<not> isFlushingHead))"
| "is_live_failure opts hasStore ev = False"

fun is_live_resolve :: "options \<Rightarrow> bool \<Rightarrow> event \<Rightarrow> bool" where
  "is_live_resolve opts hasStore (EvSend env isFlushingHead (Resolves result)) =
     (\<not> (hasStore \<and> fullOffline opts \<and> \<not> isFlushingHead))"
| "is_live_resolve opts hasStore ev = False"

text \<open>
  The claim's \<open>N\<close>, read word for word in two ways. \<open>failures_in_a_row\<close>: the live
  sends that failed one directly after the other, up to the last live send; any live send
  that resolves ends the row. \<open>failures_since_success\<close>: the live sends that failed since
  the last successful (non-4xx/5xx) live send; a response with a status of 400 or more is
  neither a failure nor a success. Events that are not live sends are passed over in both.
\<close>

fun in_a_row :: "options \<Rightarrow> bool \<Rightarrow> nat \<Rightarrow> event \<Rightarrow> nat" where
  "in_a_row opts hasStore n (EvSend env isFlushingHead out) =
     (if hasStore \<and> fullOffline opts \<and> \<not> isFlushingHead then n
      else case out of Throws e \<Rightarrow> Suc n | Resolves result \<Rightarrow> 0)"
| "in_a_row opts hasStore n ev = n"

definition failures_in_a_row :: "options \<Rightarrow> event list \<Rightarrow> nat" where
  "failures_in_a_row opts evs = foldl (in_a_row opts (createStore opts)) 0 evs"

fun since_success :: "options \<Rightarrow> bool \<Rightarrow> nat \<Rightarrow> event \<Rightarrow> nat" where
  "since_success opts hasStore n (EvSend env isFlushingHead out) =
     (if hasStore \<and> fullOffline opts \<and> \<not> isFlushingHead then n
      else case out of
             Throws e \<Rightarrow> Suc n
           | Resolves None \<Rightarrow> 0
           | Resolves (Some r) \<Rightarrow> if status r < 400 then 0 else n)"
| "since_success opts hasStore n ev = n"

definition failures_since_success :: "options \<Rightarrow> event list \<Rightarrow> nat" where
  "failures_since_success opts evs = foldl (since_success opts (createStore opts)) 0 evs"

text \<open>
  A property of the queue lifted to the engine's store, and the one event that inserts at
  the head: a head-drain send that throws.
\<close>

definition store_all :: "(envelope queue \<Rightarrow> bool) \<Rightarrow> engine \<Rightarrow> bool" where
  "store_all P st = (case store st of None \<Rightarrow> True | Some q \<Rightarrow> P q)"

fun is_head_reinsert :: "event \<Rightarrow> bool" where
  "is_head_reinsert (EvSend env isFlushingHead (Throws e)) = isFlushingHead"
| "is_head_reinsert ev = False"

text \<open>
  The pending timers are exactly the one that \<open>flushTimer\<close> names, if it names one;
  a named timer has a handle already handed out, and exists only with a store.
\<close>

definition timer_inv :: "engine \<Rightarrow> bool" where
  "timer_inv st \<longleftrightarrow>
     (case flushTimer st of
        None \<Rightarrow> timers st = []
      | Some h \<Rightarrow> map tid (timers st) = [h] \<and> h < nextTimer st \<and> store st \<noteq> None)"


section \<open>Example data\<close>

definition ev_a :: envelope where "ev_a = \<lparr>item_types = [''event''], payload = ''a''\<rparr>"
definition ev_b :: envelope where "ev_b = \<lparr>item_types = [''event''], payload = ''b''\<rparr>"
definition ev_c :: envelope where "ev_c = \<lparr>item_types = [''transaction''], payload = ''c''\<rparr>"

definition ev_replay :: envelope where
  "ev_replay = \<lparr>item_types = [''replay_event'', ''replay_recording''], payload = ''r''\<rparr>"

definition opts_live :: options where
  "opts_live = \<lparr>createStore = True, flushAtStartup = False, fullOffline = False,
                 shouldStore = None, maxQueueSize = Some 2\<rparr>"

definition opts_offline :: options where
  "opts_offline = \<lparr>createStore = True, flushAtStartup = False, fullOffline = True,
                    shouldStore = None, maxQueueSize = Some 2\<rparr>"

definition opts_offline30 :: options where
  "opts_offline30 = \<lparr>createStore = True, flushAtStartup = False, fullOffline = True,
                      shouldStore = None, maxQueueSize = None\<rparr>"

definition offline :: outcome where
  "offline = Throws (Error ''offline'')"

definition bare_500 :: outcome where
  "bare_500 = Resolves (Some \<lparr>statusCode = Some 500, headers = None\<rparr>)"

definition limited_429 :: outcome where
  "limited_429 = Resolves (Some \<lparr>statusCode = Some 429, headers = Some [(''retry-after'', ''7'')]\<rparr>)"

text \<open>
  A stand-in for \<open>parseRetryAfterHeader\<close> that agrees with it on the header \<open>7\<close>
  (seven seconds) and gives its default of one minute elsewhere.
\<close>

definition parse_seconds :: "string \<Rightarrow> int" where
  "parse_seconds h = (if h = ''7'' then 7000 else 60000)"

section \<open>The success path of send\<close>

lemma send_success_eq:
  "send_success st delay isFlushingHead = flushIn (st\<lparr>retryDelay := 0\<rparr>) delay isFlushingHead"
  by (simp add: send_success_def)

section \<open>What each operation leaves alone\<close>

lemma flushIn_fields [simp]:
  "retryDelay (flushIn st d h) = retryDelay st"
  "(store (flushIn st d h) = None) = (store st = None)"
  "store (flushIn st d h) = store st"
  "sizeToFlush (flushIn st d h) = sizeToFlush st"
  "flushedCnt (flushIn st d h) = flushedCnt st"
  by (simp_all add: flushIn_def split: option.splits)

lemma flushWithBackOff_fields [simp]:
  "retryDelay (flushWithBackOff st h) = retryDelay st"
  "store (flushWithBackOff st h) = store st"
  "sizeToFlush (flushWithBackOff st h) = sizeToFlush st"
  "flushedCnt (flushWithBackOff st h) = flushedCnt st"
  by (simp_all add: flushWithBackOff_def)

lemma store_insert_fields [simp]:
  "retryDelay (store_insert opts st env b) = retryDelay st"
  "(store (store_insert opts st env b) = None) = (store st = None)"
  "flushTimer (store_insert opts st env b) = flushTimer st"
  "timers (store_insert opts st env b) = timers st"
  "nextTimer (store_insert opts st env b) = nextTimer st"
  "sizeToFlush (store_insert opts st env b) = sizeToFlush st"
  "flushedCnt (store_insert opts st env b) = flushedCnt st"
  by (simp_all add: store_insert_def split: option.splits)

lemma store_pop_fields [simp]:
  "retryDelay (snd (store_pop st off)) = retryDelay st"
  "(store (snd (store_pop st off)) = None) = (store st = None)"
  "flushTimer (snd (store_pop st off)) = flushTimer st"
  "timers (snd (store_pop st off)) = timers st"
  "nextTimer (snd (store_pop st off)) = nextTimer st"
  by (simp_all add: store_pop_def split: option.splits)

lemma store_clear_fields [simp]:
  "retryDelay (store_clear st) = retryDelay st"
  "(store (store_clear st) = None) = (store st = None)"
  "flushTimer (store_clear st) = flushTimer st"
  "timers (store_clear st) = timers st"
  "nextTimer (store_clear st) = nextTimer st"
  by (simp_all add: store_clear_def split: option.splits)

lemma timer_fire_fields [simp]:
  "retryDelay (snd (timer_fire st t)) = retryDelay st"
  "(store (snd (timer_fire st t)) = None) = (store st = None)"
  by (simp_all add: timer_fire_def Let_def store_pop_def split: option.splits prod.splits)

lemma timer_finish_fields [simp]:
  "retryDelay (timer_finish st h) = retryDelay st"
  "store (timer_finish st h) = store st"
  "flushTimer (timer_finish st h) = flushTimer st"
  "timers (timer_finish st h) = timers st"
  "nextTimer (timer_finish st h) = nextTimer st"
  by (simp_all add: timer_finish_def)

lemma flush_resume_fields [simp]:
  "retryDelay (snd (flush_resume st)) = retryDelay st"
  "store (snd (flush_resume st)) = store st"
  by (simp_all add: flush_resume_def Let_def)

lemma flush_fields [simp]:
  "retryDelay (snd (flush opts st t i)) = retryDelay st"
  "(store (snd (flush opts st t i)) = None) = (store st = None)"
  by (simp_all add: flush_def)

lemma send_store [simp]:
  "(store (snd (send opts pra st env h out)) = None) = (store st = None)"
  by (simp add: send_def send_success_eq Let_def split: outcome.splits option.splits)

lemma send_retryDelay:
  "retryDelay (snd (send opts pra st env h out)) =
     (if \<not> live opts st h then retryDelay st
      else case out of
             Throws e \<Rightarrow> max (min (retryDelay st * 2) MAX_DELAY) START_DELAY
           | Resolves None \<Rightarrow> 0
           | Resolves (Some r) \<Rightarrow>
               if retry_after r = None \<and> status r \<ge> 400 then retryDelay st else 0)"
  by (auto simp: send_def send_success_eq live_def Let_def split: outcome.splits option.splits)

lemma step_store [simp]: "(store (step opts pra st ev) = None) = (store st = None)"
  by (cases ev) simp_all

lemma init_fields [simp]:
  "retryDelay (init opts q0) = 0"
  "(store (init opts q0) = None) = (\<not> createStore opts)"
  by (simp_all add: init_def Let_def)


section \<open>The queue: capacity and head insertion\<close>

lemma in_put: "e \<in> set (put k v q) \<Longrightarrow> fst e = k \<or> e \<in> set q"
  by (induction q) (auto split: if_splits)

lemma length_put: "length (put k v q) \<le> Suc (length q)"
  by (induction q) auto

lemma sorted_put:
  "sorted_wrt (<) (map fst q) \<Longrightarrow> sorted_wrt (<) (map fst (put k v q))"
proof (induction q)
  case Nil
  then show ?case by simp
next
  case (Cons e q)
  obtain k' v' where e: "e = (k', v')" by (cases e)
  have "\<forall>x\<in>set (put k v q). k' < fst x" if "k' < k"
    using Cons.prems that in_put [of _ k v q] by (auto simp: e)
  with Cons show ?case by (auto simp: e)
qed

lemma put_front: "\<forall>x\<in>set (keys q). k < x \<Longrightarrow> put k v q = (k, v) # q"
  by (cases q) (auto simp: keys_def)

lemma max_key_ge: "0 \<le> max_key ks"
  by (induction ks) (auto simp: max_key_def)

lemma insert_q_full: "cap \<le> length q \<Longrightarrow> insert_q q v cap toStart = q"
  by (simp add: insert_q_def keys_def)

lemma length_insert_q: "length q \<le> cap \<Longrightarrow> length (insert_q q v cap toStart) \<le> cap"
  using length_put [of "if toStart then 0 else max_key (keys q) + 1" v q]
  by (auto simp: insert_q_def keys_def)

lemma length_inserts: "length q \<le> cap \<Longrightarrow> length (inserts q cap vs) \<le> cap"
  by (induction vs arbitrary: q) (auto simp: length_insert_q)

text \<open>
  C4. An insert into a queue that already holds \<open>maxQueueSize\<close> entries or more returns
  the queue as it is: the value is not written, and the operation has no failing branch.
  So a queue within its capacity stays within it under any sequence of inserts, at the
  tail or at the head, and a queue built by inserts alone never exceeds the capacity.
\<close>

theorem insert_capacity:
  "(cap \<le> size_q q \<longrightarrow> insert_q q v cap toStart = q)
   \<and> (size_q q \<le> cap \<longrightarrow> size_q (inserts q cap vs) \<le> cap)
   \<and> size_q (inserts [] cap vs) \<le> cap"
  using length_inserts [of q cap vs] length_inserts [of "[]" cap vs]
  by (simp add: size_q_def keys_def insert_q_full)

theorem insert_capacity_witness:
  "(2::nat) \<le> size_q [(1, ''a''), (2, ''b'')]
   \<and> insert_q [(1, ''a''), (2, ''b'')] ''c'' 2 True = [(1, ''a''), (2, ''b'')]
   \<and> size_q (inserts [(1, ''a''), (2, ''b'')] 2 [(''c'', False), (''d'', True)]) \<le> 2
   \<and> size_q (inserts [] 2 [(''c'', False), (''d'', True), (''e'', False)]) \<le> 2"
  using insert_capacity [of 2 "[(1, ''a''), (2, ''b'')]" "''c''" True "[(''c'', False), (''d'', True)]"]
    insert_capacity [of 2 "[(1, ''a''), (2, ''b'')]" "''c''" True
      "[(''c'', False), (''d'', True), (''e'', False)]"]
  by (simp add: size_q_def keys_def)

lemma wf_insert_q: "wf_queue q \<Longrightarrow> wf_queue (insert_q q v cap toStart)"
  using max_key_ge [of "keys q"]
  by (auto simp: wf_queue_def insert_q_def keys_def sorted_put list_all_iff dest!: in_put)

lemma wf_delete: "wf_queue q \<Longrightarrow> wf_queue (delete k q)"
  by (auto simp: wf_queue_def delete_def keys_def list_all_iff sorted_wrt_map sorted_wrt_filter)

lemma pos_pop_head: "wf_queue q \<Longrightarrow> pos_queue (snd (pop_q q 0))"
proof (cases q)
  case Nil
  then show ?thesis by (simp add: pop_q_def pos_queue_def keys_def)
next
  case (Cons e q')
  assume wf: "wf_queue q"
  have gt: "\<forall>x\<in>set q'. fst e < fst x"
    using wf Cons by (auto simp: wf_queue_def keys_def)
  then have "filter (\<lambda>x. fst x \<noteq> fst e) q' = q'"
    by (auto simp: filter_id_conv)
  then have "snd (pop_q q 0) = q'"
    using Cons by (simp add: pop_q_def keys_def delete_def)
  moreover have "0 \<le> fst e"
    using wf Cons by (simp add: wf_queue_def keys_def)
  ultimately show ?thesis
    using wf Cons gt by (auto simp: pos_queue_def wf_queue_def keys_def list_all_iff)
qed

lemma pos_insert_tail: "pos_queue q \<Longrightarrow> pos_queue (insert_q q v cap False)"
  using max_key_ge [of "keys q"]
  by (auto simp: pos_queue_def insert_q_def keys_def sorted_put list_all_iff dest!: in_put)

lemma pos_delete: "pos_queue q \<Longrightarrow> pos_queue (delete k q)"
  by (auto simp: pos_queue_def delete_def keys_def list_all_iff sorted_wrt_map sorted_wrt_filter)

lemma insert_q_head:
  "pos_queue q \<Longrightarrow> insert_q q v cap True = (if size_q q < cap then (0, v) # q else q)"
  by (auto simp: pos_queue_def insert_q_def size_q_def list_all_iff put_front)

section \<open>The engine: putting a drained envelope back at the head\<close>

lemma store_insert_store:
  "store (store_insert opts st env b) = map_option (\<lambda>q. insert_q q env (queue_cap opts) b) (store st)"
  by (simp add: store_insert_def split: option.splits)

lemma send_store_eq:
  "store (snd (send opts pra st env h out)) =
     (if store st \<noteq> None \<and> fullOffline opts \<and> \<not> h
      then map_option (\<lambda>q. insert_q q env (queue_cap opts) False) (store st)
      else case out of
             Resolves result \<Rightarrow> store st
           | Throws e \<Rightarrow>
               if store st \<noteq> None
                  \<and> shouldQueue opts env e (max (min (retryDelay st * 2) MAX_DELAY) START_DELAY)
               then map_option (\<lambda>q. insert_q q env (queue_cap opts) h) (store st)
               else store st)"
  by (auto simp: send_def send_success_eq Let_def store_insert_store
      split: outcome.splits option.splits)

lemma flush_store:
  "store (snd (flush opts st t i)) = store st \<or> store (snd (flush opts st t i)) = Some []"
  by (auto simp: flush_def store_clear_def clear_q_def split: option.splits)

lemma timer_fire_store:
  "store (snd (timer_fire st t)) = store st
   \<or> (\<exists>q off. store st = Some q \<and> store (snd (timer_fire st t)) = Some (snd (pop_q q off)))"
  by (auto simp: timer_fire_def Let_def store_pop_def split: option.splits prod.splits)

lemma store_all_eq: "store a = store b \<Longrightarrow> store_all P a = store_all P b"
  by (simp add: store_all_def)

lemma store_all_step:
  assumes st: "store_all P st"
    and nil: "P []"
    and tail: "\<And>q v c. P q \<Longrightarrow> P (insert_q q v c False)"
    and del: "\<And>q k. P q \<Longrightarrow> P (delete k q)"
    and head: "\<And>q v c. is_head_reinsert ev \<Longrightarrow> P q \<Longrightarrow> P (insert_q q v c True)"
  shows "store_all P (step opts pra st ev)"
proof (cases ev)
  case (EvSend env h out)
  have "P (insert_q q env (queue_cap opts) h)" if "P q" "out = Throws e" for q e
    using that tail [of q env "queue_cap opts"] head [of q env "queue_cap opts"] EvSend
    by (cases h) simp_all
  then show ?thesis
    using st tail EvSend
    by (auto simp: store_all_def send_store_eq split: option.splits outcome.splits)
next
  case (EvFlush t i)
  then show ?thesis
    using st nil flush_store [of opts st t i] by (auto simp: store_all_def)
next
  case (EvFire t)
  have "P (snd (pop_q q off))" if "P q" for q off
    using that del by (simp add: pop_q_def)
  then show ?thesis
    using st EvFire timer_fire_store [of st t] by (auto simp: store_all_def)
qed (use st in \<open>simp_all add: store_all_def\<close>)

lemma store_all_run:
  assumes "store_all P st"
    and "P []"
    and "\<And>q v c. P q \<Longrightarrow> P (insert_q q v c False)"
    and "\<And>q k. P q \<Longrightarrow> P (delete k q)"
    and "\<And>q v c ev. ev \<in> set evs \<Longrightarrow> is_head_reinsert ev \<Longrightarrow> P q \<Longrightarrow> P (insert_q q v c True)"
  shows "store_all P (run opts pra st evs)"
  using assms
proof (induction evs arbitrary: st)
  case Nil
  then show ?case by simp
next
  case (Cons ev evs)
  have "store_all P (step opts pra st ev)"
  proof (rule store_all_step)
    show "P (insert_q q v c True)" if "is_head_reinsert ev" "P q" for q v c
      using that Cons.prems(5) [of ev q v c] by simp
  qed (use Cons.prems in simp_all)
  then have "store_all P (run opts pra (step opts pra st ev) evs)"
  proof (rule Cons.IH)
    show "P (insert_q q v c True)" if "ev' \<in> set evs" "is_head_reinsert ev'" "P q" for ev' q v c
      using that Cons.prems(5) [of ev' q v c] by simp
  qed (use Cons.prems in simp_all)
  then show ?case by simp
qed

lemma wf_reachable: "wf_queue q0 \<Longrightarrow> store_all wf_queue (run opts pra (init opts q0) evs)"
proof (rule store_all_run)
  assume "wf_queue q0"
  then show "store_all wf_queue (init opts q0)"
    by (simp add: store_all_def init_def Let_def)
qed (simp_all add: wf_insert_q wf_delete, simp add: wf_queue_def keys_def)

lemma pos_after_head_pop:
  assumes "store_all wf_queue st" and "thead t" and "timer_fire st t = (Some env, st1)"
  shows "store_all pos_queue st1"
  using assms
  by (auto simp: timer_fire_def Let_def store_pop_def store_all_def pos_pop_head
      split: if_splits option.splits prod.splits)

lemma pos_kept:
  "store_all pos_queue st \<Longrightarrow> list_all (\<lambda>ev. \<not> is_head_reinsert ev) evs \<Longrightarrow>
   store_all pos_queue (run opts pra st evs)"
  by (rule store_all_run)
    (auto simp: pos_insert_tail pos_delete list_all_iff, simp add: pos_queue_def keys_def)

text \<open>
  C2 (as amended). Let the persistent store hold a queue with ascending, non-negative keys,
  as this code writes them, and let the engine run through any events. When then a
  head-drain timer fires and pops an envelope, events that put no other drained envelope
  back at the head follow, and the send of the popped envelope fails and may be queued,
  every key in the store is greater than \<open>0\<close>, and the send leaves the envelope at key
  \<open>0\<close> in front of all entries if the queue holds fewer entries than its capacity, and
  leaves the queue as it is if the queue is full.
\<close>

theorem head_reinsert_lowest_key:
  assumes "wf_queue q0"
    and "thead t"
    and "timer_fire (run opts pra (init opts q0) evs) t = (Some env, st1)"
    and "list_all (\<lambda>ev. \<not> is_head_reinsert ev) between"
    and "store (run opts pra st1 between) = Some q"
    and "shouldQueue opts env e
           (max (min (retryDelay (run opts pra st1 between) * 2) MAX_DELAY) START_DELAY)"
  shows "list_all (\<lambda>k. 0 < k) (keys q)
         \<and> store (snd (send opts pra (run opts pra st1 between) env True (Throws e)))
             = Some (if size_q q < queue_cap opts then (0, env) # q else q)"
proof -
  have "store_all wf_queue (run opts pra (init opts q0) evs)"
    using assms(1) by (rule wf_reachable)
  then have "store_all pos_queue st1"
    using assms(2,3) by (rule pos_after_head_pop)
  then have "store_all pos_queue (run opts pra st1 between)"
    using assms(4) by (rule pos_kept)
  then have pos: "pos_queue q"
    using assms(5) by (simp add: store_all_def)
  then show ?thesis
    using assms(5,6) by (simp add: send_store_eq insert_q_head pos_queue_def)
qed

theorem head_reinsert_lowest_key_witness:
  "wf_queue [(1, ev_a), (2, ev_b)]
   \<and> thead \<lparr>tid = 1, tdelay = 0, thead = True\<rparr>
   \<and> timer_fire (run opts_offline30 parse_seconds (init opts_offline30 [(1, ev_a), (2, ev_b)])
        [EvFlush None True]) \<lparr>tid = 1, tdelay = 0, thead = True\<rparr>
      = (Some ev_a,
         \<lparr>store = Some [(2, ev_b)], retryDelay = 0, flushTimer = None, sizeToFlush = 2,
          flushedCnt = 1, timers = [], nextTimer = 2\<rparr>)
   \<and> list_all (\<lambda>ev. \<not> is_head_reinsert ev) [EvSend ev_c False offline]
   \<and> store (run opts_offline30 parse_seconds
        \<lparr>store = Some [(2, ev_b)], retryDelay = 0, flushTimer = None, sizeToFlush = 2,
         flushedCnt = 1, timers = [], nextTimer = 2\<rparr> [EvSend ev_c False offline])
      = Some [(2, ev_b), (3, ev_c)]
   \<and> shouldQueue opts_offline30 ev_a (Error ''offline'') 5000
   \<and> store (snd (send opts_offline30 parse_seconds
        (run opts_offline30 parse_seconds
          \<lparr>store = Some [(2, ev_b)], retryDelay = 0, flushTimer = None, sizeToFlush = 2,
           flushedCnt = 1, timers = [], nextTimer = 2\<rparr> [EvSend ev_c False offline])
        ev_a True (Throws (Error ''offline''))))
      = Some [(0, ev_a), (2, ev_b), (3, ev_c)]"
proof -
  have h1: "wf_queue [(1, ev_a), (2, ev_b)]"
    by (simp add: wf_queue_def keys_def)
  have h2: "thead \<lparr>tid = 1, tdelay = 0, thead = True\<rparr>"
    by simp
  have h3: "timer_fire (run opts_offline30 parse_seconds (init opts_offline30 [(1, ev_a), (2, ev_b)])
        [EvFlush None True]) \<lparr>tid = 1, tdelay = 0, thead = True\<rparr>
      = (Some ev_a,
         \<lparr>store = Some [(2, ev_b)], retryDelay = 0, flushTimer = None, sizeToFlush = 2,
          flushedCnt = 1, timers = [], nextTimer = 2\<rparr>)"
    by (simp add: opts_offline30_def init_def flush_def flush_resume_def store_size_def size_q_def
        keys_def flushWithBackOff_def flushIn_def timer_fire_def clearTimeout_def store_pop_def
        pop_q_def get_def delete_def Let_def)
  have h4: "list_all (\<lambda>ev. \<not> is_head_reinsert ev) [EvSend ev_c False offline]"
    by (simp add: offline_def)
  have h5: "store (run opts_offline30 parse_seconds
        \<lparr>store = Some [(2, ev_b)], retryDelay = 0, flushTimer = None, sizeToFlush = 2,
         flushedCnt = 1, timers = [], nextTimer = 2\<rparr> [EvSend ev_c False offline])
      = Some [(2, ev_b), (3, ev_c)]"
    by (simp add: opts_offline30_def send_def store_insert_def insert_q_def queue_cap_def
        keys_def max_key_def)
  have rd: "retryDelay (run opts_offline30 parse_seconds
        \<lparr>store = Some [(2, ev_b)], retryDelay = 0, flushTimer = None, sizeToFlush = 2,
         flushedCnt = 1, timers = [], nextTimer = 2\<rparr> [EvSend ev_c False offline]) = 0"
    by (simp add: send_retryDelay live_def opts_offline30_def)
  have h6: "shouldQueue opts_offline30 ev_a (Error ''offline'') 5000"
    by (simp add: shouldQueue_def envelopeContainsItemType_def ev_a_def opts_offline30_def)
  from h6 rd have h6': "shouldQueue opts_offline30 ev_a (Error ''offline'')
      (max (min (retryDelay (run opts_offline30 parse_seconds
        \<lparr>store = Some [(2, ev_b)], retryDelay = 0, flushTimer = None, sizeToFlush = 2,
         flushedCnt = 1, timers = [], nextTimer = 2\<rparr> [EvSend ev_c False offline]) * 2)
        MAX_DELAY) START_DELAY)"
    by (simp add: START_DELAY_def MAX_DELAY_def)
  from head_reinsert_lowest_key [OF h1 h2 h3 h4 h5 h6']
  show ?thesis
    using h1 h2 h3 h4 h5 h6 by (simp add: size_q_def keys_def queue_cap_def opts_offline30_def)
qed

text \<open>
  C2 as stated fails in two ways. With \<open>maxQueueSize = 2\<close> and two envelopes stored,
  \<open>flush()\<close> starts a head drain, the timer pops \<open>ev_a\<close>, a caller's \<open>send(ev_c)\<close>
  fills the freed place while the drained envelope is in flight, and the failed send's
  head insert is dropped: \<open>ev_a\<close> is stored at no key and \<open>ev_b\<close> stays the head.
  And with room in the queue: a second \<open>flush()\<close> that tested \<open>sizeToFlush\<close> before
  the first one set it resumes after the first drain's timer has fired, and arms a second
  head drain; both drained envelopes fail, \<open>ev_a\<close> is put back at key \<open>0\<close>, and
  \<open>ev_b\<close> is then written to the same key \<open>0\<close>, which is not less than every key
  present, and replaces \<open>ev_a\<close>.
\<close>

theorem head_reinsert_counterexample:
  "fst (timer_fire (run opts_offline parse_seconds (init opts_offline [(1, ev_a), (2, ev_b)])
          [EvFlush None True]) \<lparr>tid = 1, tdelay = 0, thead = True\<rparr>) = Some ev_a
   \<and> store (run opts_offline parse_seconds (init opts_offline [(1, ev_a), (2, ev_b)])
        [EvFlush None True,
         EvFire \<lparr>tid = 1, tdelay = 0, thead = True\<rparr>,
         EvSend ev_c False (Resolves None)]) = Some [(2, ev_b), (3, ev_c)]
   \<and> send opts_offline parse_seconds
        (run opts_offline parse_seconds (init opts_offline [(1, ev_a), (2, ev_b)])
          [EvFlush None True,
           EvFire \<lparr>tid = 1, tdelay = 0, thead = True\<rparr>,
           EvSend ev_c False (Resolves None)])
        ev_a True (Throws (Error ''offline''))
      = (Returned (Some empty_response),
         \<lparr>store = Some [(2, ev_b), (3, ev_c)], retryDelay = 5000, flushTimer = Some 2,
          sizeToFlush = 2, flushedCnt = 0,
          timers = [\<lparr>tid = 2, tdelay = 5000, thead = True\<rparr>], nextTimer = 3\<rparr>)
   \<and> store (run opts_offline30 parse_seconds
        (init opts_offline30 [(1, ev_a), (2, ev_b), (3, ev_c)])
        [EvFlush None True,
         EvFire \<lparr>tid = 1, tdelay = 0, thead = True\<rparr>,
         EvFlushResume,
         EvFire \<lparr>tid = 2, tdelay = 0, thead = True\<rparr>,
         EvSend ev_a True (Throws (Error ''offline''))]) = Some [(0, ev_a), (3, ev_c)]
   \<and> store (run opts_offline30 parse_seconds
        (init opts_offline30 [(1, ev_a), (2, ev_b), (3, ev_c)])
        [EvFlush None True,
         EvFire \<lparr>tid = 1, tdelay = 0, thead = True\<rparr>,
         EvFlushResume,
         EvFire \<lparr>tid = 2, tdelay = 0, thead = True\<rparr>,
         EvSend ev_a True (Throws (Error ''offline'')),
         EvSend ev_b True (Throws (Error ''offline''))]) = Some [(0, ev_b), (3, ev_c)]"
  by (simp add: opts_offline_def opts_offline30_def init_def flush_def flush_resume_def
      store_size_def size_q_def keys_def
      flushWithBackOff_def flushIn_def timer_fire_def clearTimeout_def store_pop_def pop_q_def
      get_def delete_def send_def send_success_eq store_insert_def insert_q_def queue_cap_def
      max_key_def shouldQueue_def envelopeContainsItemType_def ev_a_def ev_b_def ev_c_def
      empty_response_def START_DELAY_def MAX_DELAY_def Let_def)

section \<open>The engine: backoff\<close>

subsection \<open>Backoff arithmetic\<close>

lemma backoff_step: "max (min (backoff n * 2) MAX_DELAY) START_DELAY = backoff (Suc n)"
proof (cases n)
  case 0
  then show ?thesis by (simp add: MAX_DELAY_def START_DELAY_def)
next
  case (Suc m)
  have arith: "max (min (min (5000 * p) 3600000 * 2) 3600000) 5000 = min (5000 * (2 * p)) 3600000"
    if "1 \<le> p" for p :: int
    using that by auto
  have "(1::int) \<le> 2 ^ m" by simp
  from arith [OF this] show ?thesis
    using Suc by (simp add: MAX_DELAY_def START_DELAY_def)
qed

lemma backoff_bounds: "START_DELAY \<le> backoff (Suc n) \<and> backoff (Suc n) \<le> MAX_DELAY"
proof -
  have "(1::int) \<le> 2 ^ n" by simp
  then have "START_DELAY \<le> START_DELAY * 2 ^ n"
    by (simp add: START_DELAY_def)
  then show ?thesis
    by (simp add: MAX_DELAY_def START_DELAY_def)
qed

lemma escalate_bounds:
  "START_DELAY \<le> max (min (r * 2) MAX_DELAY) START_DELAY
   \<and> max (min (r * 2) MAX_DELAY) START_DELAY \<le> MAX_DELAY"
  by (simp add: MAX_DELAY_def START_DELAY_def)


lemma step_streak:
  assumes "retryDelay st = backoff n" and "\<not> is_live_resolve opts (store st \<noteq> None) ev"
  shows "retryDelay (step opts pra st ev)
           = backoff (if is_live_failure opts (store st \<noteq> None) ev then Suc n else n)"
proof (cases ev)
  case (EvSend env h out)
  then show ?thesis
    using assms backoff_step [of n]
    by (cases out) (auto simp: send_retryDelay live_def)
qed (use assms in simp_all)

lemma run_streak:
  "retryDelay st = backoff n \<Longrightarrow>
   list_all (\<lambda>ev. \<not> is_live_resolve opts (store st \<noteq> None) ev) fs \<Longrightarrow>
   retryDelay (run opts pra st fs)
     = backoff (n + length (filter (is_live_failure opts (store st \<noteq> None)) fs))"
proof (induction fs arbitrary: st n)
  case Nil
  then show ?case by simp
next
  case (Cons ev fs)
  from Cons.prems have "retryDelay (step opts pra st ev)
      = backoff (if is_live_failure opts (store st \<noteq> None) ev then Suc n else n)"
    by (intro step_streak) simp_all
  from Cons.IH [OF this] Cons.prems show ?case
    by simp
qed

text \<open>
  C3 (as amended). Live sends that fail with no live send resolving among them, begun in a
  state whose \<open>retryDelay\<close> is \<open>0\<close>, leave
  \<open>min(START_DELAY \<cdot> 2^(N-1), MAX_DELAY)\<close> after the \<open>N\<close>th of them; begun where
  \<open>m\<close> earlier failures have left the delay, they leave the delay of \<open>m + N\<close>
  failures. Whatever came before, a failed live send leaves
  \<open>max(min(2 \<cdot> retryDelay, MAX_DELAY), START_DELAY)\<close>, which lies between
  \<open>START_DELAY\<close> and \<open>MAX_DELAY\<close> and is \<open>START_DELAY\<close> when \<open>retryDelay\<close> was
  \<open>0\<close>. A live send that resolves with nothing or with a status below 400 leaves
  \<open>retryDelay = 0\<close>, and so does one whose response carries a retry-after header, whatever
  its status; a response with a status of 400 or more and no retry-after header leaves
  \<open>retryDelay\<close> as it was.
\<close>

theorem retryDelay_backoff:
  "(retryDelay st = 0
      \<and> list_all (\<lambda>ev. \<not> is_live_resolve opts (store st \<noteq> None) ev) fs
      \<and> 0 < length (filter (is_live_failure opts (store st \<noteq> None)) fs) \<longrightarrow>
        retryDelay (run opts pra st fs)
          = min (START_DELAY * 2 ^ (length (filter (is_live_failure opts (store st \<noteq> None)) fs) - 1))
              MAX_DELAY)
   \<and> (retryDelay st = backoff m
      \<and> list_all (\<lambda>ev. \<not> is_live_resolve opts (store st \<noteq> None) ev) fs \<longrightarrow>
        retryDelay (run opts pra st fs)
          = backoff (m + length (filter (is_live_failure opts (store st \<noteq> None)) fs)))
   \<and> (live opts st isFlushingHead \<longrightarrow>
        retryDelay (snd (send opts pra st env isFlushingHead (Throws e)))
          = max (min (retryDelay st * 2) MAX_DELAY) START_DELAY
        \<and> START_DELAY \<le> retryDelay (snd (send opts pra st env isFlushingHead (Throws e)))
        \<and> retryDelay (snd (send opts pra st env isFlushingHead (Throws e))) \<le> MAX_DELAY)
   \<and> (live opts st isFlushingHead \<and> retryDelay st = 0 \<longrightarrow>
        retryDelay (snd (send opts pra st env isFlushingHead (Throws e))) = START_DELAY)
   \<and> (live opts st isFlushingHead \<and> (case result of None \<Rightarrow> True | Some r \<Rightarrow> status r < 400) \<longrightarrow>
        retryDelay (snd (send opts pra st env isFlushingHead (Resolves result))) = 0)
   \<and> (live opts st isFlushingHead \<and> retry_after r = Some h \<longrightarrow>
        retryDelay (snd (send opts pra st env isFlushingHead (Resolves (Some r)))) = 0)
   \<and> (live opts st isFlushingHead \<and> retry_after r = None \<and> 400 \<le> status r \<longrightarrow>
        retryDelay (snd (send opts pra st env isFlushingHead (Resolves (Some r)))) = retryDelay st)"
proof (intro conjI impI)
  assume a: "retryDelay st = 0
      \<and> list_all (\<lambda>ev. \<not> is_live_resolve opts (store st \<noteq> None) ev) fs
      \<and> 0 < length (filter (is_live_failure opts (store st \<noteq> None)) fs)"
  then have "retryDelay st = backoff 0" by simp
  from run_streak [OF this, of opts fs pra] a
  have "retryDelay (run opts pra st fs)
      = backoff (length (filter (is_live_failure opts (store st \<noteq> None)) fs))"
    by simp
  moreover obtain n where "length (filter (is_live_failure opts (store st \<noteq> None)) fs) = Suc n"
    using a by (cases "length (filter (is_live_failure opts (store st \<noteq> None)) fs)") auto
  ultimately show "retryDelay (run opts pra st fs)
      = min (START_DELAY * 2 ^ (length (filter (is_live_failure opts (store st \<noteq> None)) fs) - 1))
          MAX_DELAY"
    by simp
next
  assume "retryDelay st = backoff m
      \<and> list_all (\<lambda>ev. \<not> is_live_resolve opts (store st \<noteq> None) ev) fs"
  then show "retryDelay (run opts pra st fs)
      = backoff (m + length (filter (is_live_failure opts (store st \<noteq> None)) fs))"
    by (simp add: run_streak)
next
  assume "live opts st isFlushingHead"
  then show "retryDelay (snd (send opts pra st env isFlushingHead (Throws e)))
      = max (min (retryDelay st * 2) MAX_DELAY) START_DELAY"
    and "START_DELAY \<le> retryDelay (snd (send opts pra st env isFlushingHead (Throws e)))"
    and "retryDelay (snd (send opts pra st env isFlushingHead (Throws e))) \<le> MAX_DELAY"
    using escalate_bounds [of "retryDelay st"] by (simp_all add: send_retryDelay)
next
  assume "live opts st isFlushingHead \<and> retryDelay st = 0"
  then show "retryDelay (snd (send opts pra st env isFlushingHead (Throws e))) = START_DELAY"
    by (simp add: send_retryDelay MAX_DELAY_def START_DELAY_def)
next
  assume "live opts st isFlushingHead \<and> (case result of None \<Rightarrow> True | Some r \<Rightarrow> status r < 400)"
  then show "retryDelay (snd (send opts pra st env isFlushingHead (Resolves result))) = 0"
    by (auto simp: send_retryDelay split: option.splits)
next
  assume "live opts st isFlushingHead \<and> retry_after r = Some h"
  then show "retryDelay (snd (send opts pra st env isFlushingHead (Resolves (Some r)))) = 0"
    by (simp add: send_retryDelay)
next
  assume "live opts st isFlushingHead \<and> retry_after r = None \<and> 400 \<le> status r"
  then show "retryDelay (snd (send opts pra st env isFlushingHead (Resolves (Some r))))
      = retryDelay st"
    by (simp add: send_retryDelay)
qed

theorem retryDelay_backoff_witness:
  "retryDelay (init opts_live []) = 0
   \<and> list_all (\<lambda>ev. \<not> is_live_resolve opts_live (store (init opts_live []) \<noteq> None) ev)
        [EvSend ev_a False offline, EvFire \<lparr>tid = 1, tdelay = 5000, thead = False\<rparr>,
         EvSend ev_a False offline, EvSend ev_b False offline]
   \<and> length (filter (is_live_failure opts_live (store (init opts_live []) \<noteq> None))
        [EvSend ev_a False offline, EvFire \<lparr>tid = 1, tdelay = 5000, thead = False\<rparr>,
         EvSend ev_a False offline, EvSend ev_b False offline]) = 3
   \<and> retryDelay (run opts_live parse_seconds (init opts_live [])
        [EvSend ev_a False offline, EvFire \<lparr>tid = 1, tdelay = 5000, thead = False\<rparr>,
         EvSend ev_a False offline, EvSend ev_b False offline]) = 20000
   \<and> live opts_live (init opts_live []) False
   \<and> retryDelay (snd (send opts_live parse_seconds (init opts_live []) ev_a False
        (Throws (Error ''offline'')))) = 5000
   \<and> retryDelay (snd (send opts_live parse_seconds (init opts_live []) ev_a False
        (Resolves (Some \<lparr>statusCode = Some 200, headers = None\<rparr>)))) = 0
   \<and> retry_after \<lparr>statusCode = Some 429, headers = Some [(''retry-after'', ''7'')]\<rparr> = Some ''7''
   \<and> retryDelay (snd (send opts_live parse_seconds (init opts_live []) ev_a False
        (Resolves (Some \<lparr>statusCode = Some 429, headers = Some [(''retry-after'', ''7'')]\<rparr>)))) = 0
   \<and> retry_after \<lparr>statusCode = Some 500, headers = None\<rparr> = None
   \<and> (400::int) \<le> status \<lparr>statusCode = Some 500, headers = None\<rparr>
   \<and> retryDelay (snd (send opts_live parse_seconds ((init opts_live [])\<lparr>retryDelay := 5000\<rparr>) ev_a False
        (Resolves (Some \<lparr>statusCode = Some 500, headers = None\<rparr>)))) = 5000"
  using retryDelay_backoff [of "init opts_live []" opts_live
      "[EvSend ev_a False offline, EvFire \<lparr>tid = 1, tdelay = 5000, thead = False\<rparr>,
        EvSend ev_a False offline, EvSend ev_b False offline]"
      parse_seconds 0 False ev_a "Error ''offline''"
      "Some \<lparr>statusCode = Some 200, headers = None\<rparr>"
      "\<lparr>statusCode = Some 429, headers = Some [(''retry-after'', ''7'')]\<rparr>" "''7''"]
    retryDelay_backoff [of "(init opts_live [])\<lparr>retryDelay := 5000\<rparr>" opts_live "[]"
      parse_seconds 1 False ev_a "Error ''offline''" None
      "\<lparr>statusCode = Some 500, headers = None\<rparr>" "''7''"]
  by (simp add: opts_live_def init_def live_def status_def retry_after_def offline_def
      START_DELAY_def MAX_DELAY_def)

text \<open>
  C3 as stated fails for runs with responses of status 400 or more, in either reading of
  its \<open>N\<close>. After a failure, a bare 500 and a failure, \<open>retryDelay\<close> is 10000, where
  one failure in a row gives 5000. After a failure, a 429 with a retry-after header and a
  failure, \<open>retryDelay\<close> is 5000, where two failures since the last successful send give
  10000. After the five sends of both runs joined, \<open>retryDelay\<close> is 10000, where the
  first reading gives 5000 and the second 20000.
\<close>

theorem retryDelay_streak_counterexample:
  "retryDelay (run opts_live parse_seconds (init opts_live [])
      [EvSend ev_a False offline, EvSend ev_b False bare_500, EvSend ev_c False offline]) = 10000
   \<and> backoff (failures_in_a_row opts_live
      [EvSend ev_a False offline, EvSend ev_b False bare_500, EvSend ev_c False offline]) = 5000
   \<and> retryDelay (run opts_live parse_seconds (init opts_live [])
      [EvSend ev_a False offline, EvSend ev_b False limited_429, EvSend ev_c False offline]) = 5000
   \<and> backoff (failures_since_success opts_live
      [EvSend ev_a False offline, EvSend ev_b False limited_429, EvSend ev_c False offline]) = 10000
   \<and> retryDelay (run opts_live parse_seconds (init opts_live [])
      [EvSend ev_a False offline, EvSend ev_b False limited_429, EvSend ev_c False offline,
       EvSend ev_b False bare_500, EvSend ev_c False offline]) = 10000
   \<and> backoff (failures_in_a_row opts_live
      [EvSend ev_a False offline, EvSend ev_b False limited_429, EvSend ev_c False offline,
       EvSend ev_b False bare_500, EvSend ev_c False offline]) = 5000
   \<and> backoff (failures_since_success opts_live
      [EvSend ev_a False offline, EvSend ev_b False limited_429, EvSend ev_c False offline,
       EvSend ev_b False bare_500, EvSend ev_c False offline]) = 20000"
  by (simp add: send_retryDelay live_def failures_in_a_row_def failures_since_success_def
      opts_live_def init_def offline_def bare_500_def limited_429_def status_def retry_after_def
      START_DELAY_def MAX_DELAY_def)

section \<open>The engine: one flush timer\<close>

lemma clearTimeout_single: "map tid ts = [h] \<Longrightarrow> clearTimeout h ts = []"
  by (cases ts) (auto simp: clearTimeout_def)

lemma timer_inv_cong:
  "flushTimer a = flushTimer b \<Longrightarrow> timers a = timers b \<Longrightarrow> nextTimer a = nextTimer b \<Longrightarrow>
   (store a = None) = (store b = None) \<Longrightarrow> timer_inv a = timer_inv b"
  by (auto simp: timer_inv_def split: option.splits)

lemma timer_inv_flushIn: "timer_inv st \<Longrightarrow> timer_inv (flushIn st d h)"
  by (auto simp: timer_inv_def flushIn_def clearTimeout_single split: option.splits)

lemma timer_inv_flushWithBackOff: "timer_inv st \<Longrightarrow> timer_inv (flushWithBackOff st h)"
  by (simp add: flushWithBackOff_def timer_inv_flushIn)

lemma timer_inv_store_insert [simp]: "timer_inv (store_insert opts st env b) = timer_inv st"
  by (rule timer_inv_cong) simp_all

lemma timer_inv_store_clear [simp]: "timer_inv (store_clear st) = timer_inv st"
  by (rule timer_inv_cong) simp_all

lemma timer_inv_timer_finish [simp]: "timer_inv (timer_finish st h) = timer_inv st"
  by (rule timer_inv_cong) simp_all

lemma timer_inv_updates [simp]:
  "timer_inv (st\<lparr>retryDelay := r\<rparr>) = timer_inv st"
  "timer_inv (st\<lparr>flushedCnt := c\<rparr>) = timer_inv st"
  "timer_inv (st\<lparr>sizeToFlush := n\<rparr>) = timer_inv st"
  by (rule timer_inv_cong; simp)+

lemma timer_fire_timers:
  "timers (snd (timer_fire st t)) = clearTimeout (tid t) (timers st)
   \<and> flushTimer (snd (timer_fire st t)) = None"
  by (simp add: timer_fire_def Let_def store_pop_def split: option.splits prod.splits)

lemma timer_inv_timer_fire:
  assumes "timer_inv st" and "t \<in> set (timers st)"
  shows "timer_inv (snd (timer_fire st t))"
proof -
  from assms obtain h where h: "flushTimer st = Some h" "map tid (timers st) = [h]"
    by (cases "flushTimer st") (auto simp: timer_inv_def)
  with assms(2) have "tid t = h"
    by (cases "timers st") auto
  with h have "clearTimeout (tid t) (timers st) = []"
    by (simp add: clearTimeout_single)
  then show ?thesis
    by (simp add: timer_inv_def timer_fire_timers)
qed

lemma timer_inv_send: "timer_inv st \<Longrightarrow> timer_inv (snd (send opts pra st env h out))"
  by (auto simp: send_def send_success_eq Let_def timer_inv_flushIn timer_inv_flushWithBackOff
      split: outcome.splits option.splits)

lemma timer_inv_flush_resume: "timer_inv st \<Longrightarrow> timer_inv (snd (flush_resume st))"
  by (auto simp: flush_resume_def Let_def timer_inv_flushWithBackOff)

lemma timer_inv_flush: "timer_inv st \<Longrightarrow> timer_inv (snd (flush opts st t i))"
  by (auto simp: flush_def timer_inv_flush_resume)

lemma timer_inv_step: "timer_inv st \<Longrightarrow> timer_inv (step opts pra st ev)"
  by (cases ev)
    (simp_all add: timer_inv_send timer_inv_flush timer_inv_flush_resume timer_inv_flushIn timer_inv_flushWithBackOff
      timer_inv_timer_fire)

lemma timer_inv_run: "timer_inv st \<Longrightarrow> timer_inv (run opts pra st evs)"
  by (induction evs arbitrary: st) (simp_all add: timer_inv_step)

lemma timer_inv_init: "timer_inv (init opts q0)"
proof -
  have "timer_inv \<lparr>store = (if createStore opts then Some q0 else None), retryDelay = 0,
      flushTimer = None, sizeToFlush = 0, flushedCnt = 0, timers = [], nextTimer = 1\<rparr>"
    by (simp add: timer_inv_def)
  then show ?thesis
    by (simp add: init_def Let_def timer_inv_flushWithBackOff del: One_nat_def)
qed


text \<open>
  C7. In every state the engine reaches from its construction, through sends, flushes,
  calls of \<open>flushIn\<close> and \<open>flushWithBackOff\<close>, timer firings and callback endings in
  any order, at most one timer is pending. When \<open>flushTimer\<close> names a timer, \<open>flushIn\<close>
  leaves exactly the timer it installs pending, under a fresh handle, so the timer that was
  armed is cancelled; and \<open>flushWithBackOff\<close> returns the state as it is.
\<close>

theorem single_flush_timer:
  "length (timers (run opts pra (init opts q0) evs)) \<le> 1
   \<and> (flushTimer (run opts pra (init opts q0) evs) = Some h \<longrightarrow>
        timers (flushIn (run opts pra (init opts q0) evs) delay isFlushingHead)
          = [\<lparr>tid = nextTimer (run opts pra (init opts q0) evs), tdelay = delay,
              thead = isFlushingHead\<rparr>]
        \<and> flushTimer (flushIn (run opts pra (init opts q0) evs) delay isFlushingHead)
          = Some (nextTimer (run opts pra (init opts q0) evs))
        \<and> h \<noteq> nextTimer (run opts pra (init opts q0) evs)
        \<and> flushWithBackOff (run opts pra (init opts q0) evs) isFlushingHead
          = run opts pra (init opts q0) evs)"
proof -
  let ?st = "run opts pra (init opts q0) evs"
  have inv: "timer_inv ?st"
    by (rule timer_inv_run) (rule timer_inv_init)
  then have "length (map tid (timers ?st)) \<le> 1"
    by (cases "flushTimer ?st") (simp_all add: timer_inv_def)
  moreover have "timers (flushIn ?st delay isFlushingHead)
          = [\<lparr>tid = nextTimer ?st, tdelay = delay, thead = isFlushingHead\<rparr>]
        \<and> flushTimer (flushIn ?st delay isFlushingHead) = Some (nextTimer ?st)
        \<and> h \<noteq> nextTimer ?st
        \<and> flushWithBackOff ?st isFlushingHead = ?st" if "flushTimer ?st = Some h"
    using inv that
    by (auto simp: timer_inv_def flushIn_def flushWithBackOff_def clearTimeout_single)
  ultimately show ?thesis by simp
qed

theorem single_flush_timer_witness:
  "flushTimer (run opts_live parse_seconds (init opts_live [])
      [EvSend ev_a False (Throws (Error ''offline''))]) = Some 1
   \<and> timers (run opts_live parse_seconds (init opts_live [])
      [EvSend ev_a False (Throws (Error ''offline''))]) = [\<lparr>tid = 1, tdelay = 5000, thead = False\<rparr>]
   \<and> timers (flushIn (run opts_live parse_seconds (init opts_live [])
        [EvSend ev_a False (Throws (Error ''offline''))]) 100 False)
      = [\<lparr>tid = 2, tdelay = 100, thead = False\<rparr>]
   \<and> flushWithBackOff (run opts_live parse_seconds (init opts_live [])
        [EvSend ev_a False (Throws (Error ''offline''))]) False
      = run opts_live parse_seconds (init opts_live []) [EvSend ev_a False (Throws (Error ''offline''))]"
  using single_flush_timer [of opts_live parse_seconds "[]"
      "[EvSend ev_a False (Throws (Error ''offline''))]" 1 100 False]
  by (simp add: opts_live_def init_def send_def send_success_eq shouldQueue_def envelopeContainsItemType_def
      ev_a_def store_insert_def flushWithBackOff_def flushIn_def Let_def START_DELAY_def
      MAX_DELAY_def)


section \<open>The engine: send and flush\<close>

text \<open>
  C5. A live send whose inner transport resolves a response with a status code of 400 or
  more and no retry-after header returns that response and leaves the whole state as it
  is: no timer is installed, the store is neither popped nor inserted into, and
  \<open>retryDelay\<close> keeps its value.
\<close>

theorem server_error_returned:
  "live opts st isFlushingHead \<Longrightarrow> statusCode r = Some c \<Longrightarrow> 400 \<le> c \<Longrightarrow> retry_after r = None \<Longrightarrow>
   send opts pra st env isFlushingHead (Resolves (Some r)) = (Returned (Some r), st)"
  by (auto simp: send_def send_success_eq live_def status_def)

theorem server_error_returned_witness:
  "live opts_live (init opts_live [(1, ev_b)]) False
   \<and> retry_after \<lparr>statusCode = Some 503, headers = Some [(''x-sentry-rate-limits'', '''')]\<rparr> = None
   \<and> send opts_live parse_seconds (init opts_live [(1, ev_b)]) ev_a False
        (Resolves (Some \<lparr>statusCode = Some 503, headers = Some [(''x-sentry-rate-limits'', '''')]\<rparr>))
      = (Returned (Some \<lparr>statusCode = Some 503, headers = Some [(''x-sentry-rate-limits'', '''')]\<rparr>),
         init opts_live [(1, ev_b)])"
  using server_error_returned [of opts_live "init opts_live [(1, ev_b)]" False
      "\<lparr>statusCode = Some 503, headers = Some [(''x-sentry-rate-limits'', '''')]\<rparr>" 503
      parse_seconds ev_a]
  by (simp add: live_def opts_live_def retry_after_def)


text \<open>
  C6. For an envelope with an item of type \<open>replay_event\<close>, \<open>replay_recording\<close> or
  \<open>client_report\<close>, a live send that fails throws the transport's error again, whatever
  \<open>shouldStore\<close> the options carry; only \<open>retryDelay\<close> changes, so the store and its
  length are what they were.
\<close>

theorem replay_never_queued:
  "envelopeContainsItemType env [''replay_event'', ''replay_recording'', ''client_report''] \<Longrightarrow>
   live opts st isFlushingHead \<Longrightarrow>
   send (opts\<lparr>shouldStore := f\<rparr>) pra st env isFlushingHead (Throws e)
     = (Raised e, st\<lparr>retryDelay := max (min (retryDelay st * 2) MAX_DELAY) START_DELAY\<rparr>)
   \<and> store (snd (send (opts\<lparr>shouldStore := f\<rparr>) pra st env isFlushingHead (Throws e))) = store st
   \<and> store_size (snd (send (opts\<lparr>shouldStore := f\<rparr>) pra st env isFlushingHead (Throws e)))
       = store_size st"
  by (auto simp: send_def send_success_eq live_def shouldQueue_def Let_def store_size_def)

theorem replay_never_queued_witness:
  "envelopeContainsItemType ev_replay [''replay_event'', ''replay_recording'', ''client_report'']
   \<and> live opts_live (init opts_live [(1, ev_b)]) False
   \<and> send (opts_live\<lparr>shouldStore := Some (\<lambda>env err delay. True)\<rparr>) parse_seconds
        (init opts_live [(1, ev_b)]) ev_replay False (Throws (Error ''offline''))
      = (Raised (Error ''offline''), (init opts_live [(1, ev_b)])\<lparr>retryDelay := 5000\<rparr>)
   \<and> store_size (snd (send (opts_live\<lparr>shouldStore := Some (\<lambda>env err delay. True)\<rparr>) parse_seconds
        (init opts_live [(1, ev_b)]) ev_replay False (Throws (Error ''offline'')))) = 1"
  using replay_never_queued [of ev_replay opts_live "init opts_live [(1, ev_b)]" False
      "Some (\<lambda>env err delay. True)" parse_seconds "Error ''offline''"]
  by (simp add: envelopeContainsItemType_def ev_replay_def live_def opts_live_def init_def
      store_size_def size_q_def keys_def START_DELAY_def MAX_DELAY_def)


text \<open>
  C8. A live send whose inner transport resolves a response with a retry-after header,
  whatever its status code, returns the response and calls \<open>flushIn\<close> with the delay
  that \<open>parseRetryAfterHeader\<close> gives for the header, not with \<open>MIN_DELAY\<close>; with a
  store, the one pending timer afterwards has that delay.
\<close>

theorem retry_after_delay:
  "live opts st isFlushingHead \<Longrightarrow> retry_after r = Some h \<Longrightarrow>
   send opts pra st env isFlushingHead (Resolves (Some r))
     = (Returned (Some r), flushIn (st\<lparr>retryDelay := 0\<rparr>) (pra h) isFlushingHead)
   \<and> (store st \<noteq> None \<and> timer_inv st \<longrightarrow>
        timers (snd (send opts pra st env isFlushingHead (Resolves (Some r))))
          = [\<lparr>tid = nextTimer st, tdelay = pra h, thead = isFlushingHead\<rparr>])"
  by (auto simp: send_def send_success_eq live_def flushIn_def timer_inv_def clearTimeout_single
      split: option.splits)

theorem retry_after_delay_witness:
  "live opts_live (init opts_live [(1, ev_b)]) False
   \<and> retry_after \<lparr>statusCode = Some 429, headers = Some [(''retry-after'', ''7'')]\<rparr> = Some ''7''
   \<and> store (init opts_live [(1, ev_b)]) \<noteq> None \<and> timer_inv (init opts_live [(1, ev_b)])
   \<and> send opts_live parse_seconds (init opts_live [(1, ev_b)]) ev_a False
        (Resolves (Some \<lparr>statusCode = Some 429, headers = Some [(''retry-after'', ''7'')]\<rparr>))
      = (Returned (Some \<lparr>statusCode = Some 429, headers = Some [(''retry-after'', ''7'')]\<rparr>),
         flushIn (init opts_live [(1, ev_b)]) 7000 False)
   \<and> timers (snd (send opts_live parse_seconds (init opts_live [(1, ev_b)]) ev_a False
        (Resolves (Some \<lparr>statusCode = Some 429, headers = Some [(''retry-after'', ''7'')]\<rparr>))))
      = [\<lparr>tid = 1, tdelay = 7000, thead = False\<rparr>]"
  using retry_after_delay [of opts_live "init opts_live [(1, ev_b)]" False
      "\<lparr>statusCode = Some 429, headers = Some [(''retry-after'', ''7'')]\<rparr>" "''7''"
      parse_seconds ev_a]
  by (simp add: live_def opts_live_def retry_after_def init_def timer_inv_def parse_seconds_def
      flushIn_def)


text \<open>
  C9. In full-offline mode with a store, a send that is not a head-drain step returns
  \<open>{}\<close> and inserts the envelope at the tail, whatever the inner transport would have
  done and whatever \<open>shouldStore\<close> is: neither is consulted. When the queue already
  holds the capacity the state is unchanged, and the result is still \<open>{}\<close>.
\<close>

theorem full_offline_send:
  "store st = Some q \<Longrightarrow> fullOffline opts \<Longrightarrow>
   send (opts\<lparr>shouldStore := f\<rparr>) pra st env False out
     = (Returned (Some empty_response),
        st\<lparr>store := Some (insert_q q env (queue_cap opts) False)\<rparr>)
   \<and> (queue_cap opts \<le> size_q q \<longrightarrow>
        send (opts\<lparr>shouldStore := f\<rparr>) pra st env False out = (Returned (Some empty_response), st))"
  by (auto simp: send_def send_success_eq store_insert_def queue_cap_def size_q_def keys_def insert_q_full)

theorem full_offline_send_witness:
  "store (init opts_offline [(1, ev_a), (2, ev_b)]) = Some [(1, ev_a), (2, ev_b)]
   \<and> fullOffline opts_offline
   \<and> queue_cap opts_offline \<le> size_q [(1, ev_a), (2, ev_b)]
   \<and> send (opts_offline\<lparr>shouldStore := Some (\<lambda>env err delay. False)\<rparr>) parse_seconds
        (init opts_offline [(1, ev_a), (2, ev_b)]) ev_c False (Throws (Error ''offline''))
      = (Returned (Some empty_response), init opts_offline [(1, ev_a), (2, ev_b)])"
  using full_offline_send [of "init opts_offline [(1, ev_a), (2, ev_b)]" "[(1, ev_a), (2, ev_b)]"
      opts_offline "Some (\<lambda>env err delay. False)" parse_seconds ev_c "Throws (Error ''offline'')"]
  by (simp add: opts_offline_def init_def queue_cap_def size_q_def keys_def insert_q_def)


text \<open>
  C10 (as amended). A live send whose inner transport resolves with nothing, or with a
  response that has no status code, is a success: the status counts as \<open>0\<close>, below 400,
  \<open>retryDelay\<close> becomes \<open>0\<close>, and \<open>flushIn\<close> is called with \<open>MIN_DELAY\<close>, unless
  the response carries a retry-after header, in which case it is called with the delay
  parsed from the header.
\<close>

theorem missing_status_is_success:
  "live opts st isFlushingHead \<Longrightarrow> (case result of None \<Rightarrow> True | Some r \<Rightarrow> statusCode r = None) \<Longrightarrow>
   send opts pra st env isFlushingHead (Resolves result)
     = (Returned result,
        flushIn (st\<lparr>retryDelay := 0\<rparr>)
          (case result of
             None \<Rightarrow> MIN_DELAY
           | Some r \<Rightarrow> (case retry_after r of None \<Rightarrow> MIN_DELAY | Some h \<Rightarrow> pra h))
          isFlushingHead)
   \<and> retryDelay (snd (send opts pra st env isFlushingHead (Resolves result))) = 0
   \<and> (case result of None \<Rightarrow> True | Some r \<Rightarrow> status r = 0 \<and> status r < 400)"
  by (auto simp: send_def send_success_eq live_def status_def split: option.splits)

theorem missing_status_is_success_witness:
  "live opts_live (init opts_live [(1, ev_b)]) False
   \<and> send opts_live parse_seconds (init opts_live [(1, ev_b)]) ev_a False
        (Resolves (Some \<lparr>statusCode = None, headers = None\<rparr>))
      = (Returned (Some \<lparr>statusCode = None, headers = None\<rparr>),
         flushIn (init opts_live [(1, ev_b)]) 100 False)
   \<and> timers (snd (send opts_live parse_seconds (init opts_live [(1, ev_b)]) ev_a False
        (Resolves (Some \<lparr>statusCode = None, headers = None\<rparr>))))
      = [\<lparr>tid = 1, tdelay = 100, thead = False\<rparr>]"
  using missing_status_is_success [of opts_live "init opts_live [(1, ev_b)]" False
      "Some \<lparr>statusCode = None, headers = None\<rparr>" parse_seconds ev_a]
  by (simp add: live_def opts_live_def init_def retry_after_def MIN_DELAY_def flushIn_def)


text \<open>
  C10 as stated fails for a response without a status code that carries a retry-after
  header of seven seconds: the drain is scheduled at 7000 ms, not at \<open>MIN_DELAY\<close>.
\<close>

theorem missing_status_retry_after_counterexample:
  "statusCode \<lparr>statusCode = None, headers = Some [(''retry-after'', ''7'')]\<rparr> = None
   \<and> timers (snd (send opts_live parse_seconds (init opts_live [(1, ev_b)]) ev_a False
        (Resolves (Some \<lparr>statusCode = None, headers = Some [(''retry-after'', ''7'')]\<rparr>))))
      = [\<lparr>tid = 1, tdelay = 7000, thead = False\<rparr>]
   \<and> MIN_DELAY = 100"
  by (simp add: send_def send_success_eq opts_live_def init_def retry_after_def flushIn_def parse_seconds_def
      MIN_DELAY_def)


text \<open>
  C1. In full-offline mode \<open>flush(1000)\<close> on a store of two envelopes with no drain in
  progress purges the store and returns \<open>true\<close>: the condition \<open>t ?? 0 < 0\<close> is true
  for every non-zero \<open>t\<close>, not only for a negative one. The same call without a timeout
  keeps the store, records \<open>sizeToFlush = 2\<close> and arms the head drain.
\<close>

theorem flush_positive_timeout_purges:
  "flush opts_offline (init opts_offline [(1, ev_a), (2, ev_b)]) (Some 1000) True
     = (True, \<lparr>store = Some [], retryDelay = 0, flushTimer = None, sizeToFlush = 0,
               flushedCnt = 0, timers = [], nextTimer = 1\<rparr>)
   \<and> flush opts_offline (init opts_offline [(1, ev_a), (2, ev_b)]) None True
     = (True, \<lparr>store = Some [(1, ev_a), (2, ev_b)], retryDelay = 0, flushTimer = Some 1,
               sizeToFlush = 2, flushedCnt = 0,
               timers = [\<lparr>tid = 1, tdelay = 0, thead = True\<rparr>], nextTimer = 2\<rparr>)"
  by (simp add: flush_def flush_resume_def opts_offline_def init_def store_clear_def clear_q_def store_size_def
      size_q_def keys_def flushWithBackOff_def flushIn_def Let_def)

end
